theory Spec2Isabelle
  imports Main
begin

section \<open>Transaction orchestration of algob (packages/algob/src/lib/tx.ts)\<close>

text \<open>
  A shallow embedding of \<^verbatim>\<open>tx.ts\<close>: parameter resolution (\<^verbatim>\<open>getSuggestedParams\<close>,
  \<^verbatim>\<open>mkTxParams\<close>), the note choice of \<^verbatim>\<open>makeAssetCreateTxn\<close>, the signing dispatch
  (\<^verbatim>\<open>signTransaction\<close>), submission (\<^verbatim>\<open>sendAndWait\<close>) and the orchestration
  (\<^verbatim>\<open>executeTransaction\<close>). \<^verbatim>\<open>makeASAOptInTx\<close> and \<^verbatim>\<open>executeSignedTxnFromFile\<close>
  take no part in the properties proved here and are left out.

  JavaScript numbers that hold fees and rounds are modelled as \<open>int\<close>; an optional
  field (\<^verbatim>\<open>x?: T\<close>) is a \<open>T option\<close>, with \<open>None\<close> for \<^verbatim>\<open>undefined\<close>.
  Every \<^verbatim>\<open>throw\<close> and every rejected promise is the \<open>Inl\<close> branch of a sum.
  Suggested-params objects are mutable and shared by reference, so they live in an
  explicit store; the calls made to the collaborators (the algod client, the runtime
  package, algosdk, the deployer's log) are recorded, in order, in a trace.
\<close>

subsection \<open>Errors\<close>

text \<open>
  The source throws plain \<^verbatim>\<open>Error\<close> objects that differ in their message; the
  constructors carry the names the specification gives them. \<open>InvalidTransactionError\<close>
  is the builder's failure, \<open>ClientError\<close> a rejection by the algod client or by the
  deployer's confirmation wait, and \<open>LibraryError\<close> an error thrown inside algosdk.
\<close>

datatype error =
    StaleNetworkError
  | GroupSizeExceededError
  | MissingLogicSigError
  | UnknownSignTypeError
  | InvalidTransactionError
  | ClientError string
  | LibraryError string

fun message :: "error \<Rightarrow> string" where
  "message StaleNetworkError =
     ''Suggested params returned 0 as firstRound. Ensure that your node progresses.''"
| "message GroupSizeExceededError = ''Maximum size of an atomic transfer group is 16''"
| "message MissingLogicSigError =
     ''logic signature for this transaction was not passed or - is not defined''"
| "message UnknownSignTypeError = ''Unknown type of signature''"
| "message InvalidTransactionError = ''invalid transaction''"
| "message (ClientError m) = m"
| "message (LibraryError m) = m"

subsection \<open>Data\<close>

text \<open>algosdk's \<^verbatim>\<open>SuggestedParams\<close>: the fields the data model of the specification lists.\<close>

record SuggestedParams =
  flatFee :: bool
  fee :: int
  firstRound :: int
  lastRound :: int
  genesisID :: string
  genesisHash :: string

text \<open>
  \<^verbatim>\<open>TxParams\<close> and \<^verbatim>\<open>ASADef\<close> both carry the optional fields \<^verbatim>\<open>note\<close> and
  \<^verbatim>\<open>noteb64\<close>; they are the common parent record here, so that both keep the
  source's field names.
\<close>

record NoteFields =
  "note" :: "string option"
  noteb64 :: "string option"

record TxParams = NoteFields +
  feePerByte :: "int option"
  totalFee :: "int option"
  firstValid :: "int option"
  validRounds :: "int option"

record Account =
  addr :: string
  sk :: string

record ASADeploymentFlags = TxParams +
  creator :: Account

record ASADef = NoteFields +
  total_supply :: int
  decimals :: int
  defaultFrozen :: bool
  manager :: "string option"
  reserve :: "string option"
  freeze :: "string option"
  clawback :: "string option"
  unitName :: string
  url :: string
  metadataHash :: "string option"

text \<open>
  Modelled from the spec: the enum \<^verbatim>\<open>SignType\<close> is declared in the runtime package,
  which is not under src/. The specification names \<open>SecretKey\<close> and \<open>LogicSignature\<close>
  and speaks of "any other/unknown SignType value"; \<open>OtherSignType\<close> stands for every
  run-time value outside the enum, which is what the \<^verbatim>\<open>default\<close> branch of
  \<^verbatim>\<open>signTransaction\<close> receives.
\<close>

datatype SignType = SecretKey | LogicSignature | OtherSignType int

text \<open>
  Modelled from the spec: \<^verbatim>\<open>ExecParams\<close> is declared in the runtime package. Of one
  transaction's description the code of \<^verbatim>\<open>tx.ts\<close> reads \<^verbatim>\<open>payFlags\<close>, \<^verbatim>\<open>sign\<close>,
  \<^verbatim>\<open>fromAccount\<close> and \<^verbatim>\<open>lsig\<close>; the operation kind and its domain fields are kept
  opaque in \<open>operation\<close>. A logic signature object is opaque too.
\<close>

type_synonym LogicSig = string

record ExecParams =
  payFlags :: TxParams
  sign :: SignType
  fromAccount :: Account
  lsig :: "LogicSig option"
  operation :: string

text \<open>
  An unsigned transaction is kept symbolic: what it was built from, and the group
  identifier, which algosdk computes as a hash over the ordered transactions and which is
  represented by that ordered list itself.
\<close>

record Transaction =
  built_from :: ExecParams
  built_with :: SuggestedParams
  txn_group :: "(ExecParams \<times> SuggestedParams) list option"

text \<open>A signed blob is symbolic as well: which signing call of algosdk produced it.\<close>

datatype SignedBlob =
    SignedWithSk Transaction string
  | SignedWithLsig Transaction LogicSig

text \<open>\<^verbatim>\<open>Uint8Array | Uint8Array[]\<close>, the argument of \<^verbatim>\<open>sendRawTransaction\<close>.\<close>

datatype RawTxns = OneBlob SignedBlob | BlobArray "SignedBlob list"

text \<open>\<^verbatim>\<open>ExecParams | ExecParams[]\<close>, told apart by \<^verbatim>\<open>Array.isArray\<close>.\<close>

datatype ExecInput = SingleParams ExecParams | ParamsArray "ExecParams list"

record ConfirmedTxInfo =
  confirmedRound :: int
  confirmedTxId :: string

text \<open>
  The collaborators. \<open>getTransactionParams\<close> is what
  \<^verbatim>\<open>algocl.getTransactionParams().do()\<close> settles to, \<open>sendRawTransaction\<close> what
  \<^verbatim>\<open>sendRawTransaction(rawTxns).do()\<close> settles to (the transaction id), and
  \<open>waitForConfirmation\<close> the deployer's confirmation wait.
\<close>

record Algodv2 =
  getTransactionParams :: "error + SuggestedParams"
  sendRawTransaction :: "RawTxns \<Rightarrow> error + string"

record AlgobDeployer =
  algodClient :: Algodv2
  waitForConfirmation :: "string \<Rightarrow> error + ConfirmedTxInfo"

text \<open>
  The calls into algosdk can throw, and \<^verbatim>\<open>tx.ts\<close> lets such an error pass to its
  caller. On which arguments they throw is the library's matter: for each call the
  record gives the error thrown, or \<open>None\<close> when the call returns.
\<close>

record Algosdk =
  signTxn_throws :: "Transaction \<Rightarrow> string \<Rightarrow> error option"
  signLogicSig_throws :: "Transaction \<Rightarrow> LogicSig \<Rightarrow> error option"
  assignGroupID_throws :: "Transaction list \<Rightarrow> error option"

subsection \<open>Store and trace\<close>

type_synonym ref = nat

datatype event =
    Call_getTransactionParams
  | Call_mkTransaction ExecParams ref SuggestedParams
  | Call_assignGroupID "Transaction list"
  | Call_signTransaction Transaction ExecParams
  | Call_log SignedBlob
  | Call_sendRawTransaction RawTxns
  | Call_waitForConfirmation string
  | Call_consoleLog ConfirmedTxInfo

text \<open>
  \<open>heap\<close> holds the suggested-params objects, a reference being an index into it;
  a new object gets the next index. \<open>trace\<close> is the list of collaborator calls so far.
  JavaScript has no dangling references, so a reference handed to a function is below the
  length of the store; the theorems say so where they need it.
\<close>

record state =
  heap :: "SuggestedParams list"
  trace :: "event list"

definition alloc :: "SuggestedParams \<Rightarrow> state \<Rightarrow> ref \<times> state" where
  "alloc v st = (length (heap st), st\<lparr>heap := heap st @ [v]\<rparr>)"

definition emit :: "event \<Rightarrow> state \<Rightarrow> state" where
  "emit e st = st\<lparr>trace := trace st @ [e]\<rparr>"

text \<open>
  Sequencing of a step that may throw with its continuation: an error ends the
  computation with the state reached so far.
\<close>

definition and_then ::
  "(error + 'a) \<times> state \<Rightarrow> ('a \<Rightarrow> state \<Rightarrow> (error + 'b) \<times> state) \<Rightarrow> (error + 'b) \<times> state"
where
  "and_then m f = (case m of (Inl e, st) \<Rightarrow> (Inl e, st) | (Inr x, st) \<Rightarrow> f x st)"

text \<open>The operator \<^verbatim>\<open>??\<close>: with a right operand that may be undefined, and with one that is not.\<close>

definition nullish_opt :: "'a option \<Rightarrow> 'a option \<Rightarrow> 'a option" where
  "nullish_opt a b = (case a of None \<Rightarrow> b | Some x \<Rightarrow> Some x)"

definition nullish :: "'a option \<Rightarrow> 'a \<Rightarrow> 'a" where
  "nullish a b = (case a of None \<Rightarrow> b | Some x \<Rightarrow> x)"

text \<open>Truthiness of a \<^verbatim>\<open>string | undefined\<close>: defined and not the empty string.\<close>

definition truthy :: "string option \<Rightarrow> bool" where
  "truthy v = (case v of None \<Rightarrow> False | Some s \<Rightarrow> s \<noteq> [])"

subsection \<open>Parameter resolution\<close>

text \<open>
  \<^verbatim>\<open>getSuggestedParams\<close> (lines 14-22): the client's answer is a new object; a first
  round of 0 throws.
\<close>

definition getSuggestedParams :: "Algodv2 \<Rightarrow> state \<Rightarrow> (error + ref) \<times> state" where
  "getSuggestedParams algocl st =
     (let st1 = emit Call_getTransactionParams st in
      case getTransactionParams algocl of
        Inl e \<Rightarrow> (Inl e, st1)
      | Inr answer \<Rightarrow>
          (case alloc answer st1 of
             (params, st2) \<Rightarrow>
               if firstRound (heap st2 ! params) = 0 then (Inl StaleNetworkError, st2)
               else (Inr params, st2)))"

text \<open>
  The assignments of \<^verbatim>\<open>mkTxParams\<close> (lines 30-37) to the object \<open>s\<close>, in the source's
  order. \<open>min_fee\<close> is the constant \<^verbatim>\<open>ALGORAND_MIN_TX_FEE\<close>, imported from
  \<^verbatim>\<open>./algo-operator\<close>, which is not under src/: it is a parameter.
\<close>

definition mkTxParams_assign :: "int \<Rightarrow> TxParams \<Rightarrow> SuggestedParams \<Rightarrow> SuggestedParams" where
  "mkTxParams_assign min_fee userParams s0 =
     (let s1 = s0\<lparr>flatFee := (totalFee userParams \<noteq> None)\<rparr>;
          s2 = s1\<lparr>fee := nullish (nullish_opt (totalFee userParams) (feePerByte userParams)) min_fee\<rparr>;
          s3 = (if flatFee s2 then s2\<lparr>fee := max (fee s2) min_fee\<rparr> else s2);
          s4 = s3\<lparr>firstRound := nullish (firstValid userParams) (firstRound s3)\<rparr>;
          s5 = s4\<lparr>lastRound :=
                 (if firstValid userParams = None \<or> validRounds userParams = None
                  then lastRound s4
                  else the (firstValid userParams) + the (validRounds userParams))\<rparr>
      in s5)"

text \<open>
  \<^verbatim>\<open>mkTxParams\<close> (lines 26-39): fetch when \<open>s\<close> is undefined, then assign to the object
  \<open>s\<close> refers to, in place, and return that reference.
\<close>

definition mkTxParams ::
  "int \<Rightarrow> Algodv2 \<Rightarrow> TxParams \<Rightarrow> ref option \<Rightarrow> state \<Rightarrow> (error + ref) \<times> state"
where
  "mkTxParams min_fee algocl userParams s st =
     and_then
       (case s of None \<Rightarrow> getSuggestedParams algocl st | Some r \<Rightarrow> (Inr r, st))
       (\<lambda>r st1.
          (Inr r, st1\<lparr>heap := (heap st1)[r := mkTxParams_assign min_fee userParams (heap st1 ! r)]\<rparr>))"

subsection \<open>Building transactions\<close>

text \<open>
  Modelled from the spec: \<^verbatim>\<open>encodeNote\<close> belongs to the runtime package, which is not
  under src/. The specification's NoteEncoder takes a raw and a base64 note, checks the
  base64 one first, lets exactly one of them win and gives nothing when both are absent.
  The byte encodings themselves stay symbolic.
\<close>

datatype EncodedNote = DecodedBase64 string | EncodedText string

definition encodeNote :: "string option \<Rightarrow> string option \<Rightarrow> EncodedNote option" where
  "encodeNote rawNote base64Note =
     (case base64Note of
        Some b \<Rightarrow> Some (DecodedBase64 b)
      | None \<Rightarrow> (case rawNote of Some n \<Rightarrow> Some (EncodedText n) | None \<Rightarrow> None))"

text \<open>
  The transaction \<^verbatim>\<open>algosdk.makeAssetCreateTxnWithSuggestedParams\<close> returns is
  represented by the arguments it is called with, in their order.
\<close>

record AssetCreateTxn =
  ac_from :: string
  ac_note :: "EncodedNote option"
  ac_total :: int
  ac_decimals :: int
  ac_defaultFrozen :: bool
  ac_manager :: "string option"
  ac_reserve :: "string option"
  ac_freeze :: "string option"
  ac_clawback :: "string option"
  ac_unitName :: string
  ac_assetName :: string
  ac_assetURL :: string
  ac_assetMetadataHash :: "string option"
  ac_suggestedParams :: SuggestedParams

text \<open>
  \<^verbatim>\<open>makeAssetCreateTxn\<close> (lines 41-71). The guards are the truthiness of
  \<^verbatim>\<open>flags.noteb64 ?? flags.note\<close> and of \<^verbatim>\<open>asaDef.noteb64 ?? asaDef.note\<close>;
  \<^verbatim>\<open>let note;\<close> starts undefined.
\<close>

definition makeAssetCreateTxn ::
  "string \<Rightarrow> ASADef \<Rightarrow> ASADeploymentFlags \<Rightarrow> SuggestedParams \<Rightarrow> AssetCreateTxn"
where
  "makeAssetCreateTxn name asaDef flags txSuggestedParams =
     (let note_chosen =
            (if truthy (nullish_opt (noteb64 flags) (note flags))
             then encodeNote (note flags) (noteb64 flags)
             else if truthy (nullish_opt (noteb64 asaDef) (note asaDef))
             then encodeNote (note asaDef) (noteb64 asaDef)
             else None)
      in \<lparr>ac_from = addr (creator flags),
          ac_note = note_chosen,
          ac_total = total_supply asaDef,
          ac_decimals = decimals asaDef,
          ac_defaultFrozen = defaultFrozen asaDef,
          ac_manager = manager asaDef,
          ac_reserve = reserve asaDef,
          ac_freeze = freeze asaDef,
          ac_clawback = clawback asaDef,
          ac_unitName = unitName asaDef,
          ac_assetName = name,
          ac_assetURL = url asaDef,
          ac_assetMetadataHash = metadataHash asaDef,
          ac_suggestedParams = txSuggestedParams\<rparr>)"

text \<open>
  Modelled from the spec: \<^verbatim>\<open>mkTransaction\<close> belongs to the runtime package, which is
  not under src/. The specification's TransactionBuilder is a pure function of the
  domain fields and the resolved network parameters that fails with
  \<open>InvalidTransactionError\<close> on malformed input. Which inputs are well formed is the
  parameter \<open>well_formed\<close>; a built transaction has no group identifier yet.
\<close>

definition mkTransaction ::
  "(ExecParams \<Rightarrow> bool) \<Rightarrow> ExecParams \<Rightarrow> SuggestedParams \<Rightarrow> error + Transaction"
where
  "mkTransaction well_formed p params =
     (if well_formed p then Inr \<lparr>built_from = p, built_with = params, txn_group = None\<rparr>
      else Inl InvalidTransactionError)"

text \<open>
  \<^verbatim>\<open>algosdk.assignGroupID\<close>: it throws on the empty list (the wording of the
  library's message is not modelled) and wherever else the library does; when it returns,
  every transaction of the list has the identifier computed from the whole ordered list.
\<close>

definition assignGroupID :: "Algosdk \<Rightarrow> Transaction list \<Rightarrow> error + Transaction list" where
  "assignGroupID sdk txns =
     (if txns = [] then Inl (LibraryError ''assignGroupID of no transactions'')
      else
        (case assignGroupID_throws sdk txns of
           Some e \<Rightarrow> Inl e
         | None \<Rightarrow>
             Inr (map (\<lambda>txn. txn\<lparr>txn_group :=
                                    Some (map (\<lambda>t. (built_from t, built_with t)) txns)\<rparr>) txns)))"

subsection \<open>Signing and submission\<close>

text \<open>
  The two signing calls of algosdk, \<^verbatim>\<open>txn.signTxn(sk)\<close> and
  \<^verbatim>\<open>algosdk.signLogicSigTransactionObject(txn, lsig).blob\<close>: the error the library
  throws, or the blob.
\<close>

definition signTxn :: "Algosdk \<Rightarrow> Transaction \<Rightarrow> string \<Rightarrow> error + SignedBlob" where
  "signTxn sdk txn key =
     (case signTxn_throws sdk txn key of Some e \<Rightarrow> Inl e | None \<Rightarrow> Inr (SignedWithSk txn key))"

definition signLogicSigTransactionObject ::
  "Algosdk \<Rightarrow> Transaction \<Rightarrow> LogicSig \<Rightarrow> error + SignedBlob"
where
  "signLogicSigTransactionObject sdk txn logicsig =
     (case signLogicSig_throws sdk txn logicsig of
        Some e \<Rightarrow> Inl e
      | None \<Rightarrow> Inr (SignedWithLsig txn logicsig))"

text \<open>
  \<^verbatim>\<open>signTransaction\<close> (lines 98-114): the \<^verbatim>\<open>switch\<close> on \<^verbatim>\<open>execParams.sign\<close>. An error
  thrown by a signing call is not caught.
\<close>

definition signTransaction :: "Algosdk \<Rightarrow> Transaction \<Rightarrow> ExecParams \<Rightarrow> error + SignedBlob" where
  "signTransaction sdk txn execParams =
     (case sign execParams of
        SecretKey \<Rightarrow> signTxn sdk txn (sk (fromAccount execParams))
      | LogicSignature \<Rightarrow>
          (case lsig execParams of
             None \<Rightarrow> Inl MissingLogicSigError
           | Some logicsig \<Rightarrow> signLogicSigTransactionObject sdk txn logicsig)
      | OtherSignType v \<Rightarrow> Inl UnknownSignTypeError)"

text \<open>\<^verbatim>\<open>sendAndWait\<close> (lines 121-126): submit, then wait for the confirmation.\<close>

definition sendAndWait ::
  "AlgobDeployer \<Rightarrow> RawTxns \<Rightarrow> state \<Rightarrow> (error + ConfirmedTxInfo) \<times> state"
where
  "sendAndWait deployer rawTxns st =
     (let st1 = emit (Call_sendRawTransaction rawTxns) st in
      case sendRawTransaction (algodClient deployer) rawTxns of
        Inl e \<Rightarrow> (Inl e, st1)
      | Inr txId \<Rightarrow>
          (let st2 = emit (Call_waitForConfirmation txId) st1 in
           case waitForConfirmation deployer txId of
             Inl e \<Rightarrow> (Inl e, st2)
           | Inr confirmed \<Rightarrow> (Inr confirmed, st2)))"

subsection \<open>Orchestration\<close>

text \<open>
  The closure \<^verbatim>\<open>mkTx\<close> (lines 137-139): \<^verbatim>\<open>Object.assign({}, suggestedParams)\<close> is a
  new object with the fields of the snapshot, \<^verbatim>\<open>mkTxParams\<close> assigns to it, and
  \<^verbatim>\<open>mkTransaction\<close> reads what it returns.
\<close>

definition mkTx ::
  "int \<Rightarrow> (ExecParams \<Rightarrow> bool) \<Rightarrow> AlgobDeployer \<Rightarrow> ref \<Rightarrow> ExecParams \<Rightarrow> state
     \<Rightarrow> (error + Transaction) \<times> state"
where
  "mkTx min_fee well_formed deployer suggestedParams p st =
     (case alloc (heap st ! suggestedParams) st of
        (copy, st1) \<Rightarrow>
          and_then (mkTxParams min_fee (algodClient deployer) (payFlags p) (Some copy) st1)
            (\<lambda>params st2.
               (mkTransaction well_formed p (heap st2 ! params),
                emit (Call_mkTransaction p params (heap st2 ! params)) st2)))"

text \<open>
  The loop of line 146, \<^verbatim>\<open>for (const t of execParams) { txns.push(await mkTx(t)); }\<close>,
  with \<open>txns\<close> the list pushed to so far.
\<close>

fun mkTx_loop ::
  "int \<Rightarrow> (ExecParams \<Rightarrow> bool) \<Rightarrow> AlgobDeployer \<Rightarrow> ref \<Rightarrow> ExecParams list \<Rightarrow> Transaction list
     \<Rightarrow> state \<Rightarrow> (error + Transaction list) \<times> state"
where
  "mkTx_loop min_fee well_formed deployer suggestedParams [] txns st = (Inr txns, st)"
| "mkTx_loop min_fee well_formed deployer suggestedParams (t # ts) txns st =
     and_then (mkTx min_fee well_formed deployer suggestedParams t st)
       (\<lambda>txn st1. mkTx_loop min_fee well_formed deployer suggestedParams ts (txns @ [txn]) st1)"

text \<open>
  The \<^verbatim>\<open>txns.map\<close> of lines 148-152: sign the transaction at \<open>index\<close> with
  \<^verbatim>\<open>execParams[index]\<close> and log the blob. The two lists have the same length wherever
  the function is called, so the index is in range.
\<close>

fun sign_map ::
  "Algosdk \<Rightarrow> ExecParams list \<Rightarrow> Transaction list \<Rightarrow> nat \<Rightarrow> state \<Rightarrow> (error + SignedBlob list) \<times> state"
where
  "sign_map sdk execParams [] index st = (Inr [], st)"
| "sign_map sdk execParams (txn # txns) index st =
     (let st1 = emit (Call_signTransaction txn (execParams ! index)) st in
      case signTransaction sdk txn (execParams ! index) of
        Inl e \<Rightarrow> (Inl e, st1)
      | Inr signed \<Rightarrow>
          and_then (sign_map sdk execParams txns (Suc index) (emit (Call_log signed) st1))
            (\<lambda>rest st2. (Inr (signed # rest), st2)))"

text \<open>The array branch of \<^verbatim>\<open>executeTransaction\<close> (lines 143-152).\<close>

definition sign_group ::
  "int \<Rightarrow> (ExecParams \<Rightarrow> bool) \<Rightarrow> Algosdk \<Rightarrow> AlgobDeployer \<Rightarrow> ref \<Rightarrow> ExecParams list \<Rightarrow> state
     \<Rightarrow> (error + RawTxns) \<times> state"
where
  "sign_group min_fee well_formed sdk deployer suggestedParams execParams st =
     (if length execParams > 16 then (Inl GroupSizeExceededError, st)
      else
        and_then (mkTx_loop min_fee well_formed deployer suggestedParams execParams [] st)
          (\<lambda>txns st1.
             and_then (assignGroupID sdk txns, emit (Call_assignGroupID txns) st1)
               (\<lambda>grouped st2.
                  and_then (sign_map sdk execParams grouped 0 st2)
                    (\<lambda>signedTxn st3. (Inr (BlobArray signedTxn), st3)))))"

text \<open>The other branch (lines 154-156).\<close>

definition sign_single ::
  "int \<Rightarrow> (ExecParams \<Rightarrow> bool) \<Rightarrow> Algosdk \<Rightarrow> AlgobDeployer \<Rightarrow> ref \<Rightarrow> ExecParams \<Rightarrow> state
     \<Rightarrow> (error + RawTxns) \<times> state"
where
  "sign_single min_fee well_formed sdk deployer suggestedParams execParams st =
     and_then (mkTx min_fee well_formed deployer suggestedParams execParams st)
       (\<lambda>txn st1.
          (let st2 = emit (Call_signTransaction txn execParams) st1 in
           case signTransaction sdk txn execParams of
             Inl e \<Rightarrow> (Inl e, st2)
           | Inr signedTxn \<Rightarrow> (Inr (OneBlob signedTxn), emit (Call_log signedTxn) st2)))"

text \<open>\<^verbatim>\<open>executeTransaction\<close> (lines 133-161).\<close>

definition executeTransaction ::
  "int \<Rightarrow> (ExecParams \<Rightarrow> bool) \<Rightarrow> Algosdk \<Rightarrow> AlgobDeployer \<Rightarrow> ExecInput \<Rightarrow> state
     \<Rightarrow> (error + ConfirmedTxInfo) \<times> state"
where
  "executeTransaction min_fee well_formed sdk deployer execParams st =
     and_then (getSuggestedParams (algodClient deployer) st)
       (\<lambda>suggestedParams st1.
          and_then
            (case execParams of
               ParamsArray ps \<Rightarrow> sign_group min_fee well_formed sdk deployer suggestedParams ps st1
             | SingleParams p \<Rightarrow> sign_single min_fee well_formed sdk deployer suggestedParams p st1)
            (\<lambda>signedTxn st2.
               and_then (sendAndWait deployer signedTxn st2)
                 (\<lambda>confirmedTx st3. (Inr confirmedTx, emit (Call_consoleLog confirmedTx) st3))))"

subsection \<open>Notions used in the statements\<close>

text \<open>The kind of a collaborator call, forgetting its arguments.\<close>

datatype event_kind = Fetch | Build | Group | Sign | Log | Send | Wait | Print

fun kind_of :: "event \<Rightarrow> event_kind" where
  "kind_of Call_getTransactionParams = Fetch"
| "kind_of (Call_mkTransaction p r s) = Build"
| "kind_of (Call_assignGroupID txns) = Group"
| "kind_of (Call_signTransaction txn p) = Sign"
| "kind_of (Call_log b) = Log"
| "kind_of (Call_sendRawTransaction raw) = Send"
| "kind_of (Call_waitForConfirmation i) = Wait"
| "kind_of (Call_consoleLog c) = Print"

text \<open>
  The transaction built for \<open>p\<close> from the snapshot \<open>raw\<close>, and the builder calls made for
  a list of descriptions when the first of them gets the params object \<open>n\<close>.
\<close>

definition build :: "int \<Rightarrow> SuggestedParams \<Rightarrow> ExecParams \<Rightarrow> Transaction" where
  "build m raw p =
     \<lparr>built_from = p, built_with = mkTxParams_assign m (payFlags p) raw, txn_group = None\<rparr>"

fun build_events :: "int \<Rightarrow> SuggestedParams \<Rightarrow> ref \<Rightarrow> ExecParams list \<Rightarrow> event list" where
  "build_events m raw n [] = []"
| "build_events m raw n (p # ps) =
     Call_mkTransaction p n (mkTxParams_assign m (payFlags p) raw) # build_events m raw (Suc n) ps"

definition built_state :: "int \<Rightarrow> SuggestedParams \<Rightarrow> ExecParams list \<Rightarrow> state \<Rightarrow> state" where
  "built_state m raw qs st =
     st\<lparr>heap := heap st @ map (\<lambda>p. mkTxParams_assign m (payFlags p) raw) qs,
        trace := trace st @ build_events m raw (length (heap st)) qs\<rparr>"

text \<open>The params objects handed to the builder, in the order of the calls.\<close>

fun build_refs :: "event list \<Rightarrow> ref list" where
  "build_refs [] = []"
| "build_refs (Call_mkTransaction p r s # evs) = r # build_refs evs"
| "build_refs (e # evs) = build_refs evs"


text \<open>
  From \<open>st\<close> to \<open>st'\<close> the store is unchanged and the trace has grown by calls of the
  kinds in \<open>K\<close> only.
\<close>

definition only_calls :: "event_kind set \<Rightarrow> state \<Rightarrow> state \<Rightarrow> bool" where
  "only_calls K st st' \<longleftrightarrow>
     heap st' = heap st \<and> take (length (trace st)) (trace st') = trace st \<and>
     kind_of ` set (drop (length (trace st)) (trace st')) \<subseteq> K"

subsection \<open>Concrete inputs\<close>

definition ex_raw :: SuggestedParams where
  "ex_raw = \<lparr>flatFee = False, fee = 0, firstRound = 500, lastRound = 1500,
             genesisID = ''testnet-v1.0'', genesisHash = ''SGO1''\<rparr>"

definition ex_stale :: SuggestedParams where
  "ex_stale = ex_raw\<lparr>firstRound := 0\<rparr>"

text \<open>A deployer whose node answers with \<open>answer\<close>, accepts every submission and confirms it.\<close>

definition ex_deployer :: "SuggestedParams \<Rightarrow> AlgobDeployer" where
  "ex_deployer answer =
     \<lparr>algodClient = \<lparr>getTransactionParams = Inr answer, sendRawTransaction = (\<lambda>raw. Inr ''TX1'')\<rparr>,
      waitForConfirmation = (\<lambda>txId. Inr \<lparr>confirmedRound = 501, confirmedTxId = txId\<rparr>)\<rparr>"

text \<open>A library that signs everything, and one that refuses keys that are not 64 bytes long.\<close>

definition ex_sdk :: Algosdk where
  "ex_sdk = \<lparr>signTxn_throws = (\<lambda>txn key. None), signLogicSig_throws = (\<lambda>txn l. None),
              assignGroupID_throws = (\<lambda>txns. None)\<rparr>"

definition ex_strict_sdk :: Algosdk where
  "ex_strict_sdk =
     ex_sdk\<lparr>signTxn_throws :=
               (\<lambda>txn key. if length key = 64 then None
                          else Some (LibraryError ''bad secret key size''))\<rparr>"


definition ex_flags :: TxParams where
  "ex_flags = \<lparr>note = None, noteb64 = None, feePerByte = None, totalFee = Some 5000,
               firstValid = Some 100, validRounds = Some 50\<rparr>"

definition ex_pay :: ExecParams where
  "ex_pay = \<lparr>payFlags = ex_flags, sign = SecretKey, fromAccount = \<lparr>addr = ''A'', sk = ''skA''\<rparr>,
             lsig = None, operation = ''pay''\<rparr>"

definition ex_lsig_pay :: ExecParams where
  "ex_lsig_pay =
     \<lparr>payFlags = ex_flags\<lparr>feePerByte := Some 10, totalFee := None, firstValid := None\<rparr>,
      sign = LogicSignature, fromAccount = \<lparr>addr = ''B'', sk = []\<rparr>, lsig = Some ''prog'',
      operation = ''pay''\<rparr>"

definition ex_state :: state where
  "ex_state = \<lparr>heap = [], trace = []\<rparr>"

definition ex_txn :: Transaction where
  "ex_txn = \<lparr>built_from = ex_pay, built_with = mkTxParams_assign 1000 ex_flags ex_raw, txn_group = None\<rparr>"


definition ex_asa :: ASADef where
  "ex_asa = \<lparr>note = Some ''asa'', noteb64 = None, total_supply = 1000, decimals = 0,
             defaultFrozen = False, manager = None, reserve = None, freeze = None,
             clawback = None, unitName = ''GLD'', url = ''u'', metadataHash = None\<rparr>"

definition ex_asa_flags :: "string option \<Rightarrow> string option \<Rightarrow> ASADeploymentFlags" where
  "ex_asa_flags n b =
     \<lparr>note = n, noteb64 = b, feePerByte = None, totalFee = None, firstValid = None,
      validRounds = None, creator = \<lparr>addr = ''A'', sk = ''skA''\<rparr>\<rparr>"

section \<open>Properties\<close>

subsection \<open>Basic facts\<close>

lemma and_then_Inl [simp]: "and_then (Inl e, st) f = (Inl e, st)"
  by (simp add: and_then_def)

lemma and_then_Inr [simp]: "and_then (Inr x, st) f = f x st"
  by (simp add: and_then_def)

lemma heap_emit [simp]: "heap (emit e st) = heap st"
  by (simp add: emit_def)

lemma trace_emit [simp]: "trace (emit e st) = trace st @ [e]"
  by (simp add: emit_def)

lemma flatFee_assign: "flatFee (mkTxParams_assign m u s) = (totalFee u \<noteq> None)"
  by (simp add: mkTxParams_assign_def Let_def)

lemma fee_assign:
  "fee (mkTxParams_assign m u s) =
     (case totalFee u of
        Some t \<Rightarrow> max t m
      | None \<Rightarrow> (case feePerByte u of Some f \<Rightarrow> f | None \<Rightarrow> m))"
  by (simp add: mkTxParams_assign_def Let_def nullish_def nullish_opt_def split: option.splits)

lemma firstRound_assign:
  "firstRound (mkTxParams_assign m u s) = (case firstValid u of Some fv \<Rightarrow> fv | None \<Rightarrow> firstRound s)"
  by (simp add: mkTxParams_assign_def Let_def nullish_def split: option.splits)

lemma lastRound_assign:
  "lastRound (mkTxParams_assign m u s) =
     (case firstValid u of
        Some fv \<Rightarrow> (case validRounds u of Some vr \<Rightarrow> fv + vr | None \<Rightarrow> lastRound s)
      | None \<Rightarrow> lastRound s)"
  by (simp add: mkTxParams_assign_def Let_def split: option.splits)

lemma genesis_assign:
  "genesisID (mkTxParams_assign m u s) = genesisID s \<and> genesisHash (mkTxParams_assign m u s) = genesisHash s"
  by (simp add: mkTxParams_assign_def Let_def)

lemma getSuggestedParams_rejected:
  "getTransactionParams c = Inl e \<Longrightarrow>
   getSuggestedParams c st = (Inl e, emit Call_getTransactionParams st)"
  by (simp add: getSuggestedParams_def Let_def)

lemma getSuggestedParams_answer:
  "getTransactionParams c = Inr a \<Longrightarrow>
   getSuggestedParams c st =
     ((if firstRound a = 0 then Inl StaleNetworkError else Inr (length (heap st))),
      st\<lparr>heap := heap st @ [a], trace := trace st @ [Call_getTransactionParams]\<rparr>)"
  by (simp add: getSuggestedParams_def Let_def alloc_def emit_def)

lemma mkTxParams_supplied:
  "mkTxParams m c u (Some r) st =
     (Inr r, st\<lparr>heap := (heap st)[r := mkTxParams_assign m u (heap st ! r)]\<rparr>)"
  by (simp add: mkTxParams_def)

lemma mkTxParams_fetch:
  "getTransactionParams c = Inr a \<Longrightarrow> firstRound a \<noteq> 0 \<Longrightarrow>
   mkTxParams m c u None st =
     (Inr (length (heap st)),
      st\<lparr>heap := heap st @ [mkTxParams_assign m u a], trace := trace st @ [Call_getTransactionParams]\<rparr>)"
  by (simp add: mkTxParams_def getSuggestedParams_answer)

lemma mkTx_eq:
  "k < length (heap st) \<Longrightarrow>
   mkTx m w d k p st =
     (mkTransaction w p (mkTxParams_assign m (payFlags p) (heap st ! k)),
      st\<lparr>heap := heap st @ [mkTxParams_assign m (payFlags p) (heap st ! k)],
         trace := trace st @ [Call_mkTransaction p (length (heap st))
                                (mkTxParams_assign m (payFlags p) (heap st ! k))]\<rparr>)"
  by (simp add: mkTx_def alloc_def mkTxParams_supplied emit_def)

lemma mkTx_loop_run:
  "k < length (heap st) \<Longrightarrow> heap st ! k = raw \<Longrightarrow>
   \<exists>qs rest. ps = qs @ rest \<and>
     trace (snd (mkTx_loop m w d k ps txns st)) = trace st @ build_events m raw (length (heap st)) qs \<and>
     heap (snd (mkTx_loop m w d k ps txns st)) =
       heap st @ map (\<lambda>p. mkTxParams_assign m (payFlags p) raw) qs \<and>
     (\<forall>ts. fst (mkTx_loop m w d k ps txns st) = Inr ts \<longrightarrow>
        rest = [] \<and> ts = txns @ map (build m raw) ps)"
proof (induction ps arbitrary: txns st)
  case Nil
  then show ?case by simp
next
  case (Cons p ps)
  let ?s = "mkTxParams_assign m (payFlags p) raw"
  let ?st1 = "st\<lparr>heap := heap st @ [?s],
                  trace := trace st @ [Call_mkTransaction p (length (heap st)) ?s]\<rparr>"
  have step: "mkTx m w d k p st = (mkTransaction w p ?s, ?st1)"
    using Cons.prems by (simp add: mkTx_eq)
  show ?case
  proof (cases "w p")
    case False
    then have "mkTx_loop m w d k (p # ps) txns st = (Inl InvalidTransactionError, ?st1)"
      by (simp add: step mkTransaction_def)
    then show ?thesis
      by (intro exI [of _ "[p]"] exI [of _ ps]) simp
  next
    case True
    then have run: "mkTx_loop m w d k (p # ps) txns st =
        mkTx_loop m w d k ps (txns @ [build m raw p]) ?st1"
      by (simp add: step mkTransaction_def build_def)
    have k1: "k < length (heap ?st1)" and raw1: "heap ?st1 ! k = raw"
      using Cons.prems by (simp_all add: nth_append)
    from Cons.IH [OF k1 raw1, of "txns @ [build m raw p]"]
    obtain qs rest where ih: "ps = qs @ rest"
      "trace (snd (mkTx_loop m w d k ps (txns @ [build m raw p]) ?st1)) =
         trace ?st1 @ build_events m raw (length (heap ?st1)) qs"
      "heap (snd (mkTx_loop m w d k ps (txns @ [build m raw p]) ?st1)) =
         heap ?st1 @ map (\<lambda>p. mkTxParams_assign m (payFlags p) raw) qs"
      "\<forall>ts. fst (mkTx_loop m w d k ps (txns @ [build m raw p]) ?st1) = Inr ts \<longrightarrow>
         rest = [] \<and> ts = (txns @ [build m raw p]) @ map (build m raw) ps"
      by blast
    show ?thesis
      unfolding run using ih
      by (intro exI [of _ "p # qs"] exI [of _ rest]) (simp del: mkTx_loop.simps)
  qed
qed

lemma sign_map_run:
  "heap (snd (sign_map sdk ps txns i st)) = heap st \<and>
   (\<exists>evs. trace (snd (sign_map sdk ps txns i st)) = trace st @ evs \<and> set (map kind_of evs) \<subseteq> {Sign, Log})"
proof (induction txns arbitrary: i st)
  case Nil
  then show ?case by simp
next
  case (Cons txn txns)
  show ?case
  proof (cases "signTransaction sdk txn (ps ! i)")
    case (Inl e)
    then show ?thesis by (simp add: Let_def)
  next
    case (Inr signed)
    let ?st2 = "emit (Call_log signed) (emit (Call_signTransaction txn (ps ! i)) st)"
    from Cons.IH [of "Suc i" ?st2]
    obtain evs where h: "heap (snd (sign_map sdk ps txns (Suc i) ?st2)) = heap ?st2"
      "trace (snd (sign_map sdk ps txns (Suc i) ?st2)) = trace ?st2 @ evs"
      "set (map kind_of evs) \<subseteq> {Sign, Log}"
      by blast
    have "snd (sign_map sdk ps (txn # txns) i st) = snd (sign_map sdk ps txns (Suc i) ?st2)"
      using Inr by (cases "sign_map sdk ps txns (Suc i) ?st2") (simp add: Let_def and_then_def split: sum.splits)
    then show ?thesis
      using h
      by (intro conjI exI [of _ "Call_signTransaction txn (ps ! i) # Call_log signed # evs"])
         (simp_all del: sign_map.simps)
  qed
qed

lemma mkTxParams_object:
  assumes ret: "mkTxParams m c u s st = (Inr r, st')"
    and src: "(s = Some r0 \<and> r0 < length (heap st) \<and> raw = heap st ! r0) \<or>
              (s = None \<and> getTransactionParams c = Inr raw)"
  shows "heap st' ! r = mkTxParams_assign m u raw"
  using src
proof (elim disjE conjE)
  assume "s = Some r0" "r0 < length (heap st)" "raw = heap st ! r0"
  with ret show ?thesis
    by (auto simp: mkTxParams_supplied)
next
  assume s: "s = None" and a: "getTransactionParams c = Inr raw"
  show ?thesis
  proof (cases "firstRound raw = 0")
    case True
    with ret s a show ?thesis
      by (simp add: mkTxParams_def getSuggestedParams_answer)
  next
    case False
    with ret s a show ?thesis
      by (auto simp: mkTxParams_fetch)
  qed
qed


lemma sign_single_run:
  assumes "k < length (heap st)" and "heap st ! k = raw"
  shows "sign_single m w sdk d k p st =
     (let s = mkTxParams_assign m (payFlags p) raw;
          st1 = st\<lparr>heap := heap st @ [s], trace := trace st @ [Call_mkTransaction p (length (heap st)) s]\<rparr>
      in if \<not> w p then (Inl InvalidTransactionError, st1)
         else (case signTransaction sdk (build m raw p) p of
                 Inl e \<Rightarrow> (Inl e, emit (Call_signTransaction (build m raw p) p) st1)
               | Inr blob \<Rightarrow>
                   (Inr (OneBlob blob),
                    emit (Call_log blob) (emit (Call_signTransaction (build m raw p) p) st1))))"
  using assms
  by (simp add: sign_single_def mkTx_eq mkTransaction_def build_def Let_def split: sum.splits)

lemma sendAndWait_cases:
  "sendAndWait d raw st =
     (case sendRawTransaction (algodClient d) raw of
        Inl e \<Rightarrow> (Inl e, emit (Call_sendRawTransaction raw) st)
      | Inr txId \<Rightarrow>
          (case waitForConfirmation d txId of
             Inl e \<Rightarrow> (Inl e, emit (Call_waitForConfirmation txId) (emit (Call_sendRawTransaction raw) st))
           | Inr c \<Rightarrow> (Inr c, emit (Call_waitForConfirmation txId) (emit (Call_sendRawTransaction raw) st))))"
  by (simp add: sendAndWait_def Let_def split: sum.splits)

subsection \<open>The shape of a run of \<open>executeTransaction\<close>\<close>

lemma only_callsI:
  "heap st' = heap st \<Longrightarrow> trace st' = trace st @ evs \<Longrightarrow> kind_of ` set evs \<subseteq> K \<Longrightarrow>
   only_calls K st st'"
  by (simp add: only_calls_def)

lemma only_callsD:
  assumes "only_calls K st st'"
  shows "heap st' = heap st \<and> (\<exists>evs. trace st' = trace st @ evs \<and> kind_of ` set evs \<subseteq> K)"
proof -
  have "trace st' = trace st @ drop (length (trace st)) (trace st')"
    using assms by (metis only_calls_def append_take_drop_id)
  with assms show ?thesis
    unfolding only_calls_def by blast
qed


lemma only_calls_refl: "only_calls K st st"
  by (simp add: only_calls_def)

lemma only_calls_trans:
  assumes "only_calls K st st1" and "only_calls K st1 st2"
  shows "only_calls K st st2"
proof -
  from only_callsD [OF assms(1)] obtain e1 where
    1: "heap st1 = heap st" "trace st1 = trace st @ e1" "kind_of ` set e1 \<subseteq> K" by blast
  from only_callsD [OF assms(2)] obtain e2 where
    2: "heap st2 = heap st1" "trace st2 = trace st1 @ e2" "kind_of ` set e2 \<subseteq> K" by blast
  show ?thesis
    by (rule only_callsI [of _ _ "e1 @ e2"]) (use 1 2 in auto)
qed

lemma only_calls_mono: "only_calls K st st' \<Longrightarrow> K \<subseteq> K' \<Longrightarrow> only_calls K' st st'"
  unfolding only_calls_def by blast

lemma only_calls_emit: "kind_of e \<in> K \<Longrightarrow> only_calls K st (emit e st)"
  by (rule only_callsI [of _ _ "[e]"]) simp_all

lemma snd_and_then:
  "snd (and_then m f) = (case fst m of Inl e \<Rightarrow> snd m | Inr x \<Rightarrow> snd (f x (snd m)))"
  by (cases m) (simp add: and_then_def split: sum.splits)

lemma sign_map_only: "only_calls {Group, Sign, Log} st (snd (sign_map sdk ps txns i st))"
proof -
  from sign_map_run [of sdk ps txns i st] obtain evs where
    "heap (snd (sign_map sdk ps txns i st)) = heap st"
    "trace (snd (sign_map sdk ps txns i st)) = trace st @ evs" "set (map kind_of evs) \<subseteq> {Sign, Log}"
    by blast
  then show ?thesis
    by (intro only_callsI [of _ _ evs]) auto
qed

lemma after_build_only:
  "only_calls {Group, Sign, Log} st
     (snd (and_then (assignGroupID sdk txns, emit (Call_assignGroupID txns) st)
            (\<lambda>grouped st2.
               and_then (sign_map sdk ps grouped 0 st2)
                 (\<lambda>signedTxn st3. (Inr (BlobArray signedTxn), st3)))))"
proof -
  let ?st1 = "emit (Call_assignGroupID txns) st"
  have a: "only_calls {Group, Sign, Log} st ?st1"
    by (rule only_calls_emit) simp
  show ?thesis
  proof (cases "assignGroupID sdk txns")
    case (Inl e)
    with a show ?thesis by simp
  next
    case (Inr grouped)
    have b: "only_calls {Group, Sign, Log} ?st1 (snd (sign_map sdk ps grouped 0 ?st1))"
      by (rule sign_map_only)
    have "snd (and_then (sign_map sdk ps grouped 0 ?st1)
              (\<lambda>signedTxn st3. (Inr (BlobArray signedTxn), st3))) =
          snd (sign_map sdk ps grouped 0 ?st1)"
      by (simp add: snd_and_then split: sum.splits)
    with only_calls_trans [OF a b] Inr show ?thesis
      by simp
  qed
qed

lemma submit_only:
  "only_calls {Send, Wait, Print} st
     (snd (and_then (sendAndWait d raw st)
            (\<lambda>confirmedTx st3. (Inr confirmedTx, emit (Call_consoleLog confirmedTx) st3))))"
  by (auto simp: sendAndWait_cases only_calls_def split: sum.splits)

lemma sign_group_shape:
  assumes "k < length (heap st)" and "heap st ! k = raw"
  shows "\<exists>qs. only_calls {Group, Sign, Log} (built_state m raw qs st) (snd (sign_group m w sdk d k ps st))"
proof (cases "length ps > 16")
  case True
  then show ?thesis
    by (intro exI [of _ "[]"]) (simp add: sign_group_def built_state_def only_calls_def)
next
  case False
  let ?L = "mkTx_loop m w d k ps [] st"
  from mkTx_loop_run [OF assms, of ps m w d "[]"] obtain qs rest where
    q: "ps = qs @ rest"
      "trace (snd ?L) = trace st @ build_events m raw (length (heap st)) qs"
      "heap (snd ?L) = heap st @ map (\<lambda>p. mkTxParams_assign m (payFlags p) raw) qs"
    by blast
  have st_b: "snd ?L = built_state m raw qs st"
    using q(2,3) by (simp add: built_state_def)
  show ?thesis
  proof (cases "fst ?L")
    case (Inl e)
    then have "snd (sign_group m w sdk d k ps st) = snd ?L"
      using False by (simp add: sign_group_def snd_and_then)
    then show ?thesis
      using st_b by (intro exI [of _ qs]) (simp add: only_calls_refl)
  next
    case (Inr txns)
    then have "snd (sign_group m w sdk d k ps st) =
        snd (and_then (assignGroupID sdk txns, emit (Call_assignGroupID txns) (snd ?L))
               (\<lambda>grouped st2.
                  and_then (sign_map sdk ps grouped 0 st2)
                    (\<lambda>signedTxn st3. (Inr (BlobArray signedTxn), st3))))"
      using False by (simp add: sign_group_def snd_and_then [of ?L])
    then show ?thesis
      using after_build_only [of "snd ?L" sdk txns ps] st_b by (intro exI [of _ qs]) simp
  qed
qed

lemma sign_single_shape:
  assumes "k < length (heap st)" and "heap st ! k = raw"
  shows "\<exists>qs. only_calls {Group, Sign, Log} (built_state m raw qs st) (snd (sign_single m w sdk d k p st))"
  by (intro exI [of _ "[p]"])
     (auto simp: sign_single_run [OF assms] Let_def built_state_def only_calls_def split: sum.splits)

lemma build_events_kind: "kind_of ` set (build_events m raw k qs) \<subseteq> {Build}"
  by (induction qs arbitrary: k) auto

lemma build_events_mem:
  "Call_mkTransaction p r s \<in> set (build_events m raw k qs) \<Longrightarrow>
   \<exists>i<length qs. p = qs ! i \<and> r = k + i \<and> s = mkTxParams_assign m (payFlags p) raw"
proof (induction qs arbitrary: k)
  case Nil
  then show ?case by simp
next
  case (Cons q qs)
  from Cons.prems have "(p = q \<and> r = k \<and> s = mkTxParams_assign m (payFlags q) raw) \<or>
      Call_mkTransaction p r s \<in> set (build_events m raw (Suc k) qs)"
    by auto
  then show ?case
  proof
    assume "p = q \<and> r = k \<and> s = mkTxParams_assign m (payFlags q) raw"
    then show ?thesis by (intro exI [of _ 0]) simp
  next
    assume "Call_mkTransaction p r s \<in> set (build_events m raw (Suc k) qs)"
    from Cons.IH [OF this] obtain i where
      "i < length qs" "p = qs ! i" "r = Suc k + i" "s = mkTxParams_assign m (payFlags p) raw"
      by blast
    then show ?thesis by (intro exI [of _ "Suc i"]) simp
  qed
qed

lemma build_refs_no_build: "Build \<notin> kind_of ` set evs \<Longrightarrow> build_refs evs = []"
  by (induction evs rule: build_refs.induct) auto

lemma build_refs_build_events:
  "build_refs (build_events m raw k qs @ evs) = [k..<k + length qs] @ build_refs evs"
proof (induction qs arbitrary: k)
  case Nil
  then show ?case by simp
next
  case (Cons q qs)
  have "[k..<k + length (q # qs)] = k # [Suc k..<Suc k + length qs]"
    by (subst upt_rec) simp
  with Cons.IH [of "Suc k"] show ?case by simp
qed

lemma executeTransaction_shape:
  assumes a: "getTransactionParams (algodClient d) = Inr raw" and nz: "firstRound raw \<noteq> 0"
  shows "\<exists>qs. only_calls {Group, Sign, Log, Send, Wait, Print}
           (built_state m raw qs
              (st\<lparr>heap := heap st @ [raw], trace := trace st @ [Call_getTransactionParams]\<rparr>))
           (snd (executeTransaction m w sdk d input st))"
proof -
  let ?K = "{Group, Sign, Log, Send, Wait, Print}"
  let ?st1 = "st\<lparr>heap := heap st @ [raw], trace := trace st @ [Call_getTransactionParams]\<rparr>"
  let ?k = "length (heap st)"
  let ?B = "case input of
              ParamsArray ps \<Rightarrow> sign_group m w sdk d ?k ps ?st1
            | SingleParams p \<Rightarrow> sign_single m w sdk d ?k p ?st1"
  let ?F = "\<lambda>signedTxn st2.
              and_then (sendAndWait d signedTxn st2)
                (\<lambda>confirmedTx st3. (Inr confirmedTx, emit (Call_consoleLog confirmedTx) st3))"
  have exec: "executeTransaction m w sdk d input st = and_then ?B ?F"
    using a nz by (simp add: executeTransaction_def getSuggestedParams_answer)
  have k: "?k < length (heap ?st1)" and r: "heap ?st1 ! ?k = raw"
    by simp_all
  have "\<exists>qs. only_calls {Group, Sign, Log} (built_state m raw qs ?st1) (snd ?B)"
    using sign_group_shape [OF k r] sign_single_shape [OF k r]
    by (cases input) simp_all
  then obtain qs where b: "only_calls {Group, Sign, Log} (built_state m raw qs ?st1) (snd ?B)"
    by blast
  then have b': "only_calls ?K (built_state m raw qs ?st1) (snd ?B)"
    by (rule only_calls_mono) auto
  show ?thesis
  proof (cases "fst ?B")
    case (Inl e)
    then have "snd (executeTransaction m w sdk d input st) = snd ?B"
      unfolding exec by (simp add: snd_and_then)
    with b' show ?thesis by (intro exI [of _ qs]) simp
  next
    case (Inr x)
    then have s: "snd (executeTransaction m w sdk d input st) = snd (?F x (snd ?B))"
      unfolding exec by (simp add: snd_and_then)
    have "only_calls {Send, Wait, Print} (snd ?B) (snd (?F x (snd ?B)))"
      by (rule submit_only)
    then have "only_calls ?K (snd ?B) (snd (?F x (snd ?B)))"
      by (rule only_calls_mono) auto
    from only_calls_trans [OF b' this] s show ?thesis
      by (intro exI [of _ qs]) simp
  qed
qed


text \<open>An empty array passes the size check and fails in \<^verbatim>\<open>assignGroupID\<close>.\<close>

lemma empty_array_fails:
  assumes "getTransactionParams (algodClient d) = Inr raw" and "firstRound raw \<noteq> 0"
  shows "fst (executeTransaction m w sdk d (ParamsArray []) st) =
           Inl (LibraryError ''assignGroupID of no transactions'')"
  using assms
  by (simp add: executeTransaction_def getSuggestedParams_answer sign_group_def assignGroupID_def)

lemmas run_simps =
  executeTransaction_def getSuggestedParams_answer sign_group_def sign_single_def mkTx_eq
  mkTransaction_def assignGroupID_def signTransaction_def signTxn_def
  signLogicSigTransactionObject_def sendAndWait_cases emit_def ex_sdk_def

section \<open>The claims\<close>

subsection \<open>C1: the group size limit\<close>

text \<open>
  C1, as amended. For every list of 17 or more descriptions, \<^verbatim>\<open>executeTransaction\<close>
  first asks the node for the suggested params. If that request is rejected or answers
  with first round 0, the call fails with that error; otherwise it fails with
  \<open>GroupSizeExceededError\<close>, whose message is "Maximum size of an atomic transfer group
  is 16". In every case the request for the params is the only collaborator call: no
  transaction is built or signed and nothing is submitted.
\<close>

theorem oversized_group_rejected:
  assumes "17 \<le> length ps"
  shows "fst (executeTransaction min_fee well_formed sdk deployer (ParamsArray ps) st) =
           (case getTransactionParams (algodClient deployer) of
              Inl e \<Rightarrow> Inl e
            | Inr raw \<Rightarrow>
                if firstRound raw = 0 then Inl StaleNetworkError else Inl GroupSizeExceededError) \<and>
         trace (snd (executeTransaction min_fee well_formed sdk deployer (ParamsArray ps) st)) =
           trace st @ [Call_getTransactionParams] \<and>
         message GroupSizeExceededError = ''Maximum size of an atomic transfer group is 16''"
  using assms
  by (cases "getTransactionParams (algodClient deployer)")
     (simp_all add: executeTransaction_def getSuggestedParams_answer getSuggestedParams_rejected
        sign_group_def)

text \<open>
  With a node that progresses, a list of 17 payments is refused after the one request.
\<close>

theorem oversized_group_rejected_witness:
  "17 \<le> length (replicate 17 ex_pay) \<and>
   executeTransaction 1000 (\<lambda>p. True) ex_sdk (ex_deployer ex_raw) (ParamsArray (replicate 17 ex_pay)) ex_state =
     (Inl GroupSizeExceededError, \<lparr>heap = [ex_raw], trace = [Call_getTransactionParams]\<rparr>)"
proof -
  have a: "17 \<le> length (replicate 17 ex_pay)"
    by simp
  have h: "heap (snd (executeTransaction 1000 (\<lambda>p. True) ex_sdk (ex_deployer ex_raw)
              (ParamsArray (replicate 17 ex_pay)) ex_state)) = [ex_raw]"
    by (simp add: executeTransaction_def getSuggestedParams_answer ex_deployer_def ex_raw_def
        ex_state_def sign_group_def)
  from oversized_group_rejected [OF a, of 1000 "\<lambda>p. True" ex_sdk "ex_deployer ex_raw" ex_state] h
  show ?thesis
    by (cases "executeTransaction 1000 (\<lambda>p. True) ex_sdk (ex_deployer ex_raw)
              (ParamsArray (replicate 17 ex_pay)) ex_state")
       (simp add: ex_deployer_def ex_raw_def ex_state_def)
qed

text \<open>
  C1 as stated fails where the node answers with first round 0: the staleness check of
  \<^verbatim>\<open>getSuggestedParams\<close> runs before the size check, so a list of 17 descriptions fails
  with \<open>StaleNetworkError\<close>.
\<close>

theorem oversized_group_on_stale_network:
  "length (replicate 17 ex_pay) = 17 \<and>
   fst (executeTransaction 1000 (\<lambda>p. True) ex_sdk (ex_deployer ex_stale) (ParamsArray (replicate 17 ex_pay))
          ex_state) = Inl StaleNetworkError \<and>
   fst (executeTransaction 1000 (\<lambda>p. True) ex_sdk (ex_deployer ex_stale) (ParamsArray (replicate 17 ex_pay))
          ex_state) \<noteq> Inl GroupSizeExceededError"
  by (simp add: executeTransaction_def getSuggestedParams_answer ex_deployer_def ex_stale_def)

subsection \<open>C2: the fee\<close>

text \<open>
  C2. Whenever \<^verbatim>\<open>mkTxParams\<close> returns, be the raw params supplied by the caller or
  fetched, the object it returns has \<open>flatFee\<close> true exactly when \<open>totalFee\<close> is present,
  and its \<open>fee\<close> is \<open>totalFee\<close> if present, else \<open>feePerByte\<close> if present, else the
  minimum fee, raised to the minimum fee only when \<open>flatFee\<close> is true. In particular
  \<open>totalFee = 5000\<close> gives \<open>flatFee\<close> and \<open>fee = max 5000 min_fee\<close>, and
  \<open>feePerByte = 10\<close> without \<open>totalFee\<close> gives no \<open>flatFee\<close> and \<open>fee = 10\<close>.
\<close>

theorem mkTxParams_fee:
  assumes "mkTxParams min_fee algocl userParams s st = (Inr r, st')"
    and "(s = Some r0 \<and> r0 < length (heap st) \<and> raw = heap st ! r0) \<or>
         (s = None \<and> getTransactionParams algocl = Inr raw)"
  shows "flatFee (heap st' ! r) = (totalFee userParams \<noteq> None) \<and>
         fee (heap st' ! r) =
           (let chosen = (case totalFee userParams of
                            Some t \<Rightarrow> t
                          | None \<Rightarrow> (case feePerByte userParams of Some f \<Rightarrow> f | None \<Rightarrow> min_fee))
            in if flatFee (heap st' ! r) then max chosen min_fee else chosen) \<and>
         (totalFee userParams = Some 5000 \<longrightarrow>
            flatFee (heap st' ! r) \<and> fee (heap st' ! r) = max 5000 min_fee) \<and>
         (totalFee userParams = None \<and> feePerByte userParams = Some 10 \<longrightarrow>
            \<not> flatFee (heap st' ! r) \<and> fee (heap st' ! r) = 10)"
proof -
  have obj: "heap st' ! r = mkTxParams_assign min_fee userParams raw"
    using assms by (rule mkTxParams_object)
  show ?thesis
    unfolding obj by (auto simp: flatFee_assign fee_assign Let_def split: option.splits)
qed

theorem mkTxParams_fee_witness:
  "mkTxParams 1000 (algodClient (ex_deployer ex_raw)) ex_flags None ex_state =
     (Inr 0, \<lparr>heap = [mkTxParams_assign 1000 ex_flags ex_raw], trace = [Call_getTransactionParams]\<rparr>) \<and>
   getTransactionParams (algodClient (ex_deployer ex_raw)) = Inr ex_raw \<and>
   totalFee ex_flags = Some 5000 \<and>
   flatFee (mkTxParams_assign 1000 ex_flags ex_raw) \<and>
   fee (mkTxParams_assign 1000 ex_flags ex_raw) = 5000"
proof -
  let ?st' = "\<lparr>heap = [mkTxParams_assign 1000 ex_flags ex_raw], trace = [Call_getTransactionParams]\<rparr>"
  have a: "getTransactionParams (algodClient (ex_deployer ex_raw)) = Inr ex_raw"
    by (simp add: ex_deployer_def)
  have nz: "firstRound ex_raw \<noteq> 0"
    by (simp add: ex_raw_def)
  have run: "mkTxParams 1000 (algodClient (ex_deployer ex_raw)) ex_flags None ex_state = (Inr 0, ?st')"
    by (simp add: mkTxParams_fetch [OF a nz] ex_state_def)
  have src: "(None = Some (0::nat) \<and> (0::nat) < length (heap ex_state) \<and> ex_raw = heap ex_state ! 0) \<or>
             (None = (None :: ref option) \<and> getTransactionParams (algodClient (ex_deployer ex_raw)) = Inr ex_raw)"
    using a by simp
  have t: "totalFee ex_flags = Some 5000"
    by (simp add: ex_flags_def)
  from mkTxParams_fee [OF run src] run a t show ?thesis
    by simp
qed

subsection \<open>C3: a node that does not progress\<close>

text \<open>
  C3. When the node answers with first round 0, \<^verbatim>\<open>getSuggestedParams\<close> fails with
  \<open>StaleNetworkError\<close>, and so do every \<^verbatim>\<open>mkTxParams\<close> call that has to fetch and
  every \<^verbatim>\<open>executeTransaction\<close> call: the value is neither returned nor replaced.
\<close>

theorem stale_network_rejected:
  assumes "getTransactionParams (algodClient deployer) = Inr raw" and "firstRound raw = 0"
  shows "fst (getSuggestedParams (algodClient deployer) st) = Inl StaleNetworkError \<and>
         fst (mkTxParams min_fee (algodClient deployer) userParams None st) = Inl StaleNetworkError \<and>
         fst (executeTransaction min_fee well_formed sdk deployer execParams st) = Inl StaleNetworkError"
  using assms
  by (simp add: getSuggestedParams_answer mkTxParams_def executeTransaction_def)

theorem stale_network_rejected_witness:
  "getTransactionParams (algodClient (ex_deployer ex_stale)) = Inr ex_stale \<and>
   firstRound ex_stale = 0 \<and>
   fst (getSuggestedParams (algodClient (ex_deployer ex_stale)) ex_state) = Inl StaleNetworkError \<and>
   fst (mkTxParams 1000 (algodClient (ex_deployer ex_stale)) ex_flags None ex_state) =
     Inl StaleNetworkError \<and>
   fst (executeTransaction 1000 (\<lambda>p. True) ex_sdk (ex_deployer ex_stale) (SingleParams ex_pay) ex_state) =
     Inl StaleNetworkError"
proof -
  have a: "getTransactionParams (algodClient (ex_deployer ex_stale)) = Inr ex_stale"
    by (simp add: ex_deployer_def)
  have b: "firstRound ex_stale = 0"
    by (simp add: ex_stale_def)
  from stale_network_rejected [OF a b, of ex_state 1000 ex_flags "\<lambda>p. True" ex_sdk "SingleParams ex_pay"] a b
  show ?thesis by simp
qed

subsection \<open>C4: the validity window\<close>

text \<open>
  C4. Whenever \<^verbatim>\<open>mkTxParams\<close> returns, the first round of the object it returns is
  \<open>firstValid\<close> when present and the raw first round otherwise; its last round is the
  raw last round unless both \<open>firstValid\<close> and \<open>validRounds\<close> are supplied, and then it is
  their sum. So \<open>firstValid = 100\<close> with \<open>validRounds = 50\<close> gives 150, and \<open>firstValid\<close>
  alone leaves the raw last round.
\<close>

theorem mkTxParams_rounds:
  assumes "mkTxParams min_fee algocl userParams s st = (Inr r, st')"
    and "(s = Some r0 \<and> r0 < length (heap st) \<and> raw = heap st ! r0) \<or>
         (s = None \<and> getTransactionParams algocl = Inr raw)"
  shows "firstRound (heap st' ! r) =
           (case firstValid userParams of Some fv \<Rightarrow> fv | None \<Rightarrow> firstRound raw) \<and>
         lastRound (heap st' ! r) =
           (if firstValid userParams \<noteq> None \<and> validRounds userParams \<noteq> None
            then the (firstValid userParams) + the (validRounds userParams)
            else lastRound raw) \<and>
         (firstValid userParams = Some 100 \<and> validRounds userParams = Some 50 \<longrightarrow>
            lastRound (heap st' ! r) = 150) \<and>
         (firstValid userParams \<noteq> None \<and> validRounds userParams = None \<longrightarrow>
            lastRound (heap st' ! r) = lastRound raw)"
proof -
  have obj: "heap st' ! r = mkTxParams_assign min_fee userParams raw"
    using assms by (rule mkTxParams_object)
  show ?thesis
    unfolding obj by (auto simp: firstRound_assign lastRound_assign split: option.splits)
qed

theorem mkTxParams_rounds_witness:
  "mkTxParams 1000 (algodClient (ex_deployer ex_raw)) ex_flags (Some 0) \<lparr>heap = [ex_raw], trace = []\<rparr> =
     (Inr 0, \<lparr>heap = [mkTxParams_assign 1000 ex_flags ex_raw], trace = []\<rparr>) \<and>
   firstValid ex_flags = Some 100 \<and> validRounds ex_flags = Some 50 \<and>
   firstRound (mkTxParams_assign 1000 ex_flags ex_raw) = 100 \<and>
   lastRound (mkTxParams_assign 1000 ex_flags ex_raw) = 150"
proof -
  let ?st = "\<lparr>heap = [ex_raw], trace = []\<rparr>"
  let ?st' = "\<lparr>heap = [mkTxParams_assign 1000 ex_flags ex_raw], trace = []\<rparr>"
  have run: "mkTxParams 1000 (algodClient (ex_deployer ex_raw)) ex_flags (Some 0) ?st = (Inr 0, ?st')"
    by (simp add: mkTxParams_supplied)
  have src: "(Some (0::nat) = Some 0 \<and> 0 < length (heap ?st) \<and> ex_raw = heap ?st ! 0) \<or>
             (Some (0::nat) = None \<and> getTransactionParams (algodClient (ex_deployer ex_raw)) = Inr ex_raw)"
    by simp
  have f: "firstValid ex_flags = Some 100" "validRounds ex_flags = Some 50"
    by (simp_all add: ex_flags_def)
  from mkTxParams_rounds [OF run src] run f show ?thesis
    by simp
qed

subsection \<open>C5: one transaction\<close>





subsection \<open>C6: the note of an asset creation\<close>

text \<open>
  C6, as amended. \<^verbatim>\<open>makeAssetCreateTxn\<close> tests its note sources for truthiness, so a
  note field that is the empty string counts as absent. Leaving aside the inputs where a
  \<open>noteb64\<close> field is the empty string while the \<open>note\<close> beside it is not empty: if the
  flags have a non-empty \<open>noteb64\<close> or \<open>note\<close>, the note is \<open>encodeNote\<close> of the flags'
  two fields; otherwise, if the ASA definition has one, it is \<open>encodeNote\<close> of the
  definition's two fields; otherwise it is undefined. The two sources are never mixed.
\<close>

theorem asset_create_note_precedence:
  assumes "\<not> (noteb64 flags = Some [] \<and> truthy (note flags))"
    and "\<not> (noteb64 asaDef = Some [] \<and> truthy (note asaDef))"
  shows "ac_note (makeAssetCreateTxn name asaDef flags txSuggestedParams) =
           (if truthy (noteb64 flags) \<or> truthy (note flags)
            then encodeNote (note flags) (noteb64 flags)
            else if truthy (noteb64 asaDef) \<or> truthy (note asaDef)
            then encodeNote (note asaDef) (noteb64 asaDef)
            else None)"
  using assms
  by (auto simp: makeAssetCreateTxn_def truthy_def nullish_opt_def split: option.splits)

theorem asset_create_note_precedence_witness:
  "\<not> (noteb64 (ex_asa_flags (Some ''hello'') (Some ''aGk='')) = Some [] \<and>
       truthy (note (ex_asa_flags (Some ''hello'') (Some ''aGk='')))) \<and>
   \<not> (noteb64 ex_asa = Some [] \<and> truthy (note ex_asa)) \<and>
   ac_note (makeAssetCreateTxn ''gold'' ex_asa (ex_asa_flags (Some ''hello'') (Some ''aGk='')) ex_raw) =
     Some (DecodedBase64 ''aGk='') \<and>
   ac_note (makeAssetCreateTxn ''gold'' ex_asa (ex_asa_flags None None) ex_raw) =
     Some (EncodedText ''asa'')"
proof -
  have a: "\<not> (noteb64 (ex_asa_flags (Some ''hello'') (Some ''aGk='')) = Some [] \<and>
       truthy (note (ex_asa_flags (Some ''hello'') (Some ''aGk=''))))"
    by (simp add: ex_asa_flags_def)
  have a': "\<not> (noteb64 (ex_asa_flags None None) = Some [] \<and> truthy (note (ex_asa_flags None None)))"
    by (simp add: ex_asa_flags_def)
  have b: "\<not> (noteb64 ex_asa = Some [] \<and> truthy (note ex_asa))"
    by (simp add: ex_asa_def)
  from asset_create_note_precedence [OF a b, of "''gold''" ex_raw]
       asset_create_note_precedence [OF a' b, of "''gold''" ex_raw] a b
  show ?thesis
    by (simp add: ex_asa_flags_def ex_asa_def truthy_def encodeNote_def)
qed

text \<open>
  C6 as stated fails for flags whose \<open>note\<close> is present but empty: the flags carry a note
  field, yet the note of the transaction is taken from the ASA definition.
\<close>

theorem empty_flags_note_yields_to_asa_note:
  "note (ex_asa_flags (Some []) None) \<noteq> None \<and>
   ac_note (makeAssetCreateTxn ''gold'' ex_asa (ex_asa_flags (Some []) None) ex_raw) =
     encodeNote (note ex_asa) (noteb64 ex_asa) \<and>
   ac_note (makeAssetCreateTxn ''gold'' ex_asa (ex_asa_flags (Some []) None) ex_raw) \<noteq>
     encodeNote (note (ex_asa_flags (Some []) None)) (noteb64 (ex_asa_flags (Some []) None))"
  by (simp add: makeAssetCreateTxn_def ex_asa_def ex_asa_flags_def truthy_def nullish_opt_def
      encodeNote_def)

text \<open>
  The inputs the amended statement leaves aside: with an empty \<open>noteb64\<close> in the flags,
  \<^verbatim>\<open>??\<close> yields that empty string, the guard is false, and a non-empty \<open>note\<close> of the
  flags is passed over for the note of the ASA definition.
\<close>

lemma empty_noteb64_hides_flags_note:
  "ac_note (makeAssetCreateTxn ''gold'' ex_asa (ex_asa_flags (Some ''hello'') (Some [])) ex_raw) =
     encodeNote (note ex_asa) (noteb64 ex_asa)"
  by (simp add: makeAssetCreateTxn_def ex_asa_def ex_asa_flags_def truthy_def nullish_opt_def)

subsection \<open>C7: the signing dispatch\<close>

text \<open>
  C7, as amended. With \<open>SecretKey\<close>, \<^verbatim>\<open>signTransaction\<close> calls \<^verbatim>\<open>txn.signTxn\<close> with
  \<open>fromAccount.sk\<close> and returns the transaction signed with that key, or fails with the
  error that call throws. With \<open>LogicSignature\<close> and no \<open>lsig\<close> it fails with
  \<open>MissingLogicSigError\<close>. With \<open>LogicSignature\<close> and an \<open>lsig\<close> it calls
  \<^verbatim>\<open>algosdk.signLogicSigTransactionObject\<close> and returns the transaction signed with that
  logic signature, or fails with the error that call throws. With any other sign type it
  fails with \<open>UnknownSignTypeError\<close>. No other outcome is possible.
\<close>

theorem signTransaction_outcomes:
  "(sign execParams = SecretKey \<longrightarrow>
      (signTxn_throws sdk txn (sk (fromAccount execParams)) = None \<longrightarrow>
         signTransaction sdk txn execParams = Inr (SignedWithSk txn (sk (fromAccount execParams)))) \<and>
      (\<forall>e. signTxn_throws sdk txn (sk (fromAccount execParams)) = Some e \<longrightarrow>
         signTransaction sdk txn execParams = Inl e)) \<and>
   (sign execParams = LogicSignature \<and> lsig execParams = None \<longrightarrow>
      signTransaction sdk txn execParams = Inl MissingLogicSigError) \<and>
   (\<forall>l. sign execParams = LogicSignature \<and> lsig execParams = Some l \<longrightarrow>
      (signLogicSig_throws sdk txn l = None \<longrightarrow>
         signTransaction sdk txn execParams = Inr (SignedWithLsig txn l)) \<and>
      (\<forall>e. signLogicSig_throws sdk txn l = Some e \<longrightarrow>
         signTransaction sdk txn execParams = Inl e)) \<and>
   (sign execParams \<noteq> SecretKey \<and> sign execParams \<noteq> LogicSignature \<longrightarrow>
      signTransaction sdk txn execParams = Inl UnknownSignTypeError) \<and>
   (signTransaction sdk txn execParams = Inr (SignedWithSk txn (sk (fromAccount execParams))) \<or>
    (\<exists>e. signTxn_throws sdk txn (sk (fromAccount execParams)) = Some e \<and>
         signTransaction sdk txn execParams = Inl e) \<or>
    signTransaction sdk txn execParams = Inl MissingLogicSigError \<or>
    (\<exists>l. lsig execParams = Some l \<and> signTransaction sdk txn execParams = Inr (SignedWithLsig txn l)) \<or>
    (\<exists>l e. lsig execParams = Some l \<and> signLogicSig_throws sdk txn l = Some e \<and>
           signTransaction sdk txn execParams = Inl e) \<or>
    signTransaction sdk txn execParams = Inl UnknownSignTypeError)"
proof (cases "sign execParams")
  case SecretKey
  then show ?thesis
    by (cases "signTxn_throws sdk txn (sk (fromAccount execParams))")
       (simp_all add: signTransaction_def signTxn_def)
next
  case LogicSignature
  show ?thesis
  proof (cases "lsig execParams")
    case None
    with LogicSignature show ?thesis
      by (simp add: signTransaction_def)
  next
    case (Some l)
    with LogicSignature show ?thesis
      by (cases "signLogicSig_throws sdk txn l")
         (simp_all add: signTransaction_def signLogicSigTransactionObject_def)
  qed
next
  case (OtherSignType v)
  then show ?thesis
    by (simp add: signTransaction_def)
qed

theorem signTransaction_outcomes_witness:
  "sign ex_pay = SecretKey \<and>
   signTxn_throws ex_sdk ex_txn (sk (fromAccount ex_pay)) = None \<and>
   signTransaction ex_sdk ex_txn ex_pay = Inr (SignedWithSk ex_txn ''skA'') \<and>
   signTxn_throws ex_strict_sdk ex_txn (sk (fromAccount ex_pay)) =
     Some (LibraryError ''bad secret key size'') \<and>
   signTransaction ex_strict_sdk ex_txn ex_pay = Inl (LibraryError ''bad secret key size'') \<and>
   signTransaction ex_sdk ex_txn (ex_pay\<lparr>sign := LogicSignature\<rparr>) = Inl MissingLogicSigError \<and>
   signTransaction ex_sdk ex_txn (ex_pay\<lparr>sign := LogicSignature, lsig := Some ''prog''\<rparr>) =
     Inr (SignedWithLsig ex_txn ''prog'') \<and>
   signTransaction ex_sdk ex_txn (ex_pay\<lparr>sign := OtherSignType 7\<rparr>) = Inl UnknownSignTypeError"
proof -
  have k: "sign ex_pay = SecretKey" "sk (fromAccount ex_pay) = ''skA''" "lsig ex_pay = None"
    by (simp_all add: ex_pay_def)
  have free: "signTxn_throws ex_sdk ex_txn ''skA'' = None"
    "signLogicSig_throws ex_sdk ex_txn ''prog'' = None"
    by (simp_all add: ex_sdk_def)
  have strict: "signTxn_throws ex_strict_sdk ex_txn ''skA'' = Some (LibraryError ''bad secret key size'')"
    by (simp add: ex_strict_sdk_def ex_sdk_def)
  from signTransaction_outcomes [of ex_pay ex_sdk ex_txn] k free
  have 1: "signTransaction ex_sdk ex_txn ex_pay = Inr (SignedWithSk ex_txn ''skA'')"
    by simp
  from signTransaction_outcomes [of ex_pay ex_strict_sdk ex_txn] k strict
  have 2: "signTransaction ex_strict_sdk ex_txn ex_pay = Inl (LibraryError ''bad secret key size'')"
    by simp
  from signTransaction_outcomes [of "ex_pay\<lparr>sign := LogicSignature\<rparr>" ex_sdk ex_txn] k
  have 3: "signTransaction ex_sdk ex_txn (ex_pay\<lparr>sign := LogicSignature\<rparr>) = Inl MissingLogicSigError"
    by simp
  from signTransaction_outcomes
         [of "ex_pay\<lparr>sign := LogicSignature, lsig := Some ''prog''\<rparr>" ex_sdk ex_txn] free
  have 4: "signTransaction ex_sdk ex_txn (ex_pay\<lparr>sign := LogicSignature, lsig := Some ''prog''\<rparr>) =
      Inr (SignedWithLsig ex_txn ''prog'')"
    by simp
  from signTransaction_outcomes [of "ex_pay\<lparr>sign := OtherSignType 7\<rparr>" ex_sdk ex_txn]
  have 5: "signTransaction ex_sdk ex_txn (ex_pay\<lparr>sign := OtherSignType 7\<rparr>) = Inl UnknownSignTypeError"
    by simp
  from k free strict 1 2 3 4 5 show ?thesis
    by simp
qed

text \<open>
  C7 as stated lists three outcomes and excludes every other. A description with
  \<open>LogicSignature\<close> and an \<open>lsig\<close> gives a fourth, the transaction signed with the logic
  signature; and with \<open>SecretKey\<close> the call does not sign when the library refuses the
  key: the library's error is the outcome.
\<close>

theorem signTransaction_other_outcomes:
  "signTransaction ex_sdk ex_txn (ex_pay\<lparr>sign := LogicSignature, lsig := Some ''prog''\<rparr>) =
     Inr (SignedWithLsig ex_txn ''prog'') \<and>
   signTransaction ex_sdk ex_txn (ex_pay\<lparr>sign := LogicSignature, lsig := Some ''prog''\<rparr>) \<noteq>
     Inr (SignedWithSk ex_txn (sk (fromAccount (ex_pay\<lparr>sign := LogicSignature, lsig := Some ''prog''\<rparr>)))) \<and>
   signTransaction ex_sdk ex_txn (ex_pay\<lparr>sign := LogicSignature, lsig := Some ''prog''\<rparr>) \<noteq>
     Inl MissingLogicSigError \<and>
   signTransaction ex_sdk ex_txn (ex_pay\<lparr>sign := LogicSignature, lsig := Some ''prog''\<rparr>) \<noteq>
     Inl UnknownSignTypeError \<and>
   sign ex_pay = SecretKey \<and>
   signTransaction ex_strict_sdk ex_txn ex_pay = Inl (LibraryError ''bad secret key size'') \<and>
   signTransaction ex_strict_sdk ex_txn ex_pay \<noteq> Inr (SignedWithSk ex_txn (sk (fromAccount ex_pay)))"
  by (simp add: signTransaction_def signTxn_def signLogicSigTransactionObject_def ex_sdk_def
      ex_strict_sdk_def ex_pay_def)

subsection \<open>C8: one snapshot, one copy for each build\<close>

text \<open>
  C8. Every \<^verbatim>\<open>executeTransaction\<close> call asks the node for the params exactly once, as
  its first collaborator call. When that request succeeds with the answer \<open>raw\<close>, the
  snapshot object still holds \<open>raw\<close> when the call ends; every call of the builder gets
  a params object that is not the snapshot and that holds, then and when the call ends,
  the assignments of \<^verbatim>\<open>mkTxParams\<close> for its own \<open>payFlags\<close> applied to \<open>raw\<close>; and no
  two builder calls get the same object.
\<close>

theorem params_fetched_once_and_copied:
  "\<exists>evs. trace (snd (executeTransaction min_fee well_formed sdk deployer execParams st)) =
           trace st @ Call_getTransactionParams # evs \<and>
     Fetch \<notin> kind_of ` set evs \<and>
     (\<forall>raw. getTransactionParams (algodClient deployer) = Inr raw \<and> firstRound raw \<noteq> 0 \<longrightarrow>
        heap (snd (executeTransaction min_fee well_formed sdk deployer execParams st)) ! length (heap st) = raw \<and>
        (\<forall>p r s. Call_mkTransaction p r s \<in> set evs \<longrightarrow>
           s = mkTxParams_assign min_fee (payFlags p) raw \<and>
           r \<noteq> length (heap st) \<and>
           heap (snd (executeTransaction min_fee well_formed sdk deployer execParams st)) ! r = s) \<and>
        distinct (build_refs evs))"
proof (cases "getTransactionParams (algodClient deployer)")
  case (Inl e)
  then show ?thesis
    by (intro exI [of _ "[]"]) (simp add: executeTransaction_def getSuggestedParams_rejected)
next
  case (Inr raw)
  let ?R = "snd (executeTransaction min_fee well_formed sdk deployer execParams st)"
  let ?n = "length (heap st)"
  show ?thesis
  proof (cases "firstRound raw = 0")
    case True
    with Inr show ?thesis
      by (intro exI [of _ "[]"]) (simp add: executeTransaction_def getSuggestedParams_answer)
  next
    case False
    let ?st1 = "st\<lparr>heap := heap st @ [raw], trace := trace st @ [Call_getTransactionParams]\<rparr>"
    let ?f = "\<lambda>p. mkTxParams_assign min_fee (payFlags p) raw"
    from executeTransaction_shape [OF Inr False, of min_fee st well_formed sdk execParams]
    obtain qs where "only_calls {Group, Sign, Log, Send, Wait, Print} (built_state min_fee raw qs ?st1) ?R"
      by blast
    from only_callsD [OF this] obtain evs' where
      h: "heap ?R = heap st @ raw # map ?f qs"
      and t: "trace ?R = trace st @ Call_getTransactionParams # build_events min_fee raw (Suc ?n) qs @ evs'"
      and k: "kind_of ` set evs' \<subseteq> {Group, Sign, Log, Send, Wait, Print}"
      by (auto simp: built_state_def)
    let ?evs = "build_events min_fee raw (Suc ?n) qs @ evs'"
    have nofetch: "Fetch \<notin> kind_of ` set ?evs"
      using k build_events_kind [of min_fee raw "Suc ?n" qs] by auto
    have snap: "heap ?R ! ?n = raw"
      by (simp add: h)
    have builds: "s = ?f p \<and> r \<noteq> ?n \<and> heap ?R ! r = s"
      if "Call_mkTransaction p r s \<in> set ?evs" for p r s
    proof -
      have "Call_mkTransaction p r s \<notin> set evs'"
        using k by (auto simp: image_subset_iff)
      with that have "Call_mkTransaction p r s \<in> set (build_events min_fee raw (Suc ?n) qs)"
        by simp
      from build_events_mem [OF this] obtain i where
        i: "i < length qs" "p = qs ! i" "r = Suc ?n + i" "s = ?f p"
        by blast
      have "heap ?R ! r = ?f (qs ! i)"
        using i(1,3) by (simp add: h nth_append)
      with i show ?thesis by simp
    qed
    have "Build \<notin> kind_of ` set evs'"
      using k by auto
    then have dist: "distinct (build_refs ?evs)"
      by (simp add: build_refs_build_events build_refs_no_build)
    show ?thesis
      using t nofetch snap builds dist Inr
      by (intro exI [of _ ?evs]) (simp; blast)
  qed
qed

theorem params_fetched_once_and_copied_witness:
  "getTransactionParams (algodClient (ex_deployer ex_raw)) = Inr ex_raw \<and>
   firstRound ex_raw \<noteq> 0 \<and>
   map kind_of (trace (snd (executeTransaction 1000 (\<lambda>p. True) ex_sdk (ex_deployer ex_raw)
                              (ParamsArray [ex_pay, ex_lsig_pay]) ex_state))) =
     [Fetch, Build, Build, Group, Sign, Log, Sign, Log, Send, Wait, Print] \<and>
   heap (snd (executeTransaction 1000 (\<lambda>p. True) ex_sdk (ex_deployer ex_raw)
                (ParamsArray [ex_pay, ex_lsig_pay]) ex_state)) ! 0 = ex_raw \<and>
   heap (snd (executeTransaction 1000 (\<lambda>p. True) ex_sdk (ex_deployer ex_raw)
                (ParamsArray [ex_pay, ex_lsig_pay]) ex_state)) ! 1 =
     mkTxParams_assign 1000 (payFlags ex_pay) ex_raw \<and>
   heap (snd (executeTransaction 1000 (\<lambda>p. True) ex_sdk (ex_deployer ex_raw)
                (ParamsArray [ex_pay, ex_lsig_pay]) ex_state)) ! 2 =
     mkTxParams_assign 1000 (payFlags ex_lsig_pay) ex_raw"
proof -
  let ?R = "executeTransaction 1000 (\<lambda>p. True) ex_sdk (ex_deployer ex_raw)
              (ParamsArray [ex_pay, ex_lsig_pay]) ex_state"
  let ?s1 = "mkTxParams_assign 1000 (payFlags ex_pay) ex_raw"
  let ?s2 = "mkTxParams_assign 1000 (payFlags ex_lsig_pay) ex_raw"
  have a: "getTransactionParams (algodClient (ex_deployer ex_raw)) = Inr ex_raw"
    by (simp add: ex_deployer_def)
  have nz: "firstRound ex_raw \<noteq> 0"
    by (simp add: ex_raw_def)
  have kinds: "map kind_of (trace (snd ?R)) =
      [Fetch, Build, Build, Group, Sign, Log, Sign, Log, Send, Wait, Print]"
    by (simp add: run_simps ex_deployer_def ex_state_def ex_raw_def ex_pay_def ex_lsig_pay_def)
  have b1: "Call_mkTransaction ex_pay 1 ?s1 \<in> set (trace (snd ?R))"
    and b2: "Call_mkTransaction ex_lsig_pay 2 ?s2 \<in> set (trace (snd ?R))"
    by (simp_all add: run_simps ex_deployer_def ex_state_def ex_raw_def ex_pay_def ex_lsig_pay_def)
  from params_fetched_once_and_copied [of 1000 "\<lambda>p. True" ex_sdk "ex_deployer ex_raw"
      "ParamsArray [ex_pay, ex_lsig_pay]" ex_state]
  obtain evs where
    t: "trace (snd ?R) = trace ex_state @ Call_getTransactionParams # evs"
    and c: "\<forall>raw. getTransactionParams (algodClient (ex_deployer ex_raw)) = Inr raw \<and> firstRound raw \<noteq> 0 \<longrightarrow>
        heap (snd ?R) ! length (heap ex_state) = raw \<and>
        (\<forall>p r s. Call_mkTransaction p r s \<in> set evs \<longrightarrow>
           s = mkTxParams_assign 1000 (payFlags p) raw \<and>
           r \<noteq> length (heap ex_state) \<and> heap (snd ?R) ! r = s) \<and>
        distinct (build_refs evs)"
    by blast
  from c a nz have snap: "heap (snd ?R) ! length (heap ex_state) = ex_raw"
    and each: "\<forall>p r s. Call_mkTransaction p r s \<in> set evs \<longrightarrow> heap (snd ?R) ! r = s"
    by blast+
  from b1 b2 t have "Call_mkTransaction ex_pay 1 ?s1 \<in> set evs"
    "Call_mkTransaction ex_lsig_pay 2 ?s2 \<in> set evs"
    by (simp_all add: ex_state_def)
  with each have o: "heap (snd ?R) ! 1 = ?s1" "heap (snd ?R) ! 2 = ?s2"
    by blast+
  from snap have o0: "heap (snd ?R) ! 0 = ex_raw"
    by (simp add: ex_state_def)
  from a nz kinds o o0 show ?thesis by simp
qed

subsection \<open>C9: the supplied params object\<close>

text \<open>
  C9, as amended. With a caller-supplied object \<open>s\<close>, \<^verbatim>\<open>mkTxParams\<close> always returns,
  and what it returns is \<open>s\<close> itself: it creates no object, it assigns \<open>flatFee\<close>, \<open>fee\<close>,
  \<open>firstRound\<close> and \<open>lastRound\<close> to \<open>s\<close> in place, and it leaves \<open>genesisID\<close> and
  \<open>genesisHash\<close> of \<open>s\<close> and every other object as they were.
\<close>

theorem mkTxParams_in_place:
  assumes "s < length (heap st)"
  shows "fst (mkTxParams min_fee algocl userParams (Some s) st) = Inr s \<and>
         length (heap (snd (mkTxParams min_fee algocl userParams (Some s) st))) = length (heap st) \<and>
         heap (snd (mkTxParams min_fee algocl userParams (Some s) st)) ! s =
           mkTxParams_assign min_fee userParams (heap st ! s) \<and>
         genesisID (heap (snd (mkTxParams min_fee algocl userParams (Some s) st)) ! s) =
           genesisID (heap st ! s) \<and>
         genesisHash (heap (snd (mkTxParams min_fee algocl userParams (Some s) st)) ! s) =
           genesisHash (heap st ! s) \<and>
         (\<forall>r. r \<noteq> s \<longrightarrow>
            heap (snd (mkTxParams min_fee algocl userParams (Some s) st)) ! r = heap st ! r)"
  using assms by (simp add: mkTxParams_supplied genesis_assign)

theorem mkTxParams_in_place_witness:
  "(0::nat) < length (heap \<lparr>heap = [ex_raw, ex_stale], trace = []\<rparr>) \<and>
   fst (mkTxParams 1000 (algodClient (ex_deployer ex_raw)) ex_flags (Some 0)
          \<lparr>heap = [ex_raw, ex_stale], trace = []\<rparr>) = Inr 0 \<and>
   heap (snd (mkTxParams 1000 (algodClient (ex_deployer ex_raw)) ex_flags (Some 0)
          \<lparr>heap = [ex_raw, ex_stale], trace = []\<rparr>)) ! 1 = ex_stale \<and>
   genesisID (heap (snd (mkTxParams 1000 (algodClient (ex_deployer ex_raw)) ex_flags (Some 0)
          \<lparr>heap = [ex_raw, ex_stale], trace = []\<rparr>)) ! 0) = ''testnet-v1.0''"
proof -
  have a: "(0::nat) < length (heap \<lparr>heap = [ex_raw, ex_stale], trace = []\<rparr>)"
    by simp
  from mkTxParams_in_place [OF a, of 1000 "algodClient (ex_deployer ex_raw)" ex_flags]
  show ?thesis
    by (simp add: ex_raw_def genesis_assign)
qed

text \<open>
  C9 as stated fails: the call returns the reference it was given, the store still holds
  one object, and that object's fields have changed (its fee from 0 to 5000).
\<close>

theorem mkTxParams_overwrites_argument:
  "fst (mkTxParams 1000 (algodClient (ex_deployer ex_raw)) ex_flags (Some 0) \<lparr>heap = [ex_raw], trace = []\<rparr>)
     = Inr 0 \<and>
   heap (snd (mkTxParams 1000 (algodClient (ex_deployer ex_raw)) ex_flags (Some 0)
                \<lparr>heap = [ex_raw], trace = []\<rparr>))
     = [ex_raw\<lparr>flatFee := True, fee := 5000, firstRound := 100, lastRound := 150\<rparr>] \<and>
   fee ex_raw = 0"
  by (simp add: mkTxParams_supplied mkTxParams_assign_def nullish_def nullish_opt_def ex_flags_def
      ex_raw_def Let_def)

subsection \<open>C10: supplied params are not checked for staleness\<close>

text \<open>
  C10. With a caller-supplied object whose first round is 0, \<^verbatim>\<open>mkTxParams\<close> does not
  fail with \<open>StaleNetworkError\<close>: it makes no request to the node, assigns to the object
  and returns it.
\<close>

theorem supplied_stale_params_accepted:
  assumes "s < length (heap st)" and "firstRound (heap st ! s) = 0"
  shows "fst (mkTxParams min_fee algocl userParams (Some s) st) = Inr s \<and>
         fst (mkTxParams min_fee algocl userParams (Some s) st) \<noteq> Inl StaleNetworkError \<and>
         trace (snd (mkTxParams min_fee algocl userParams (Some s) st)) = trace st \<and>
         heap (snd (mkTxParams min_fee algocl userParams (Some s) st)) ! s =
           mkTxParams_assign min_fee userParams (heap st ! s)"
  using assms by (simp add: mkTxParams_supplied)

theorem supplied_stale_params_accepted_witness:
  "(0::nat) < length (heap \<lparr>heap = [ex_stale], trace = []\<rparr>) \<and>
   firstRound (heap \<lparr>heap = [ex_stale], trace = []\<rparr> ! 0) = 0 \<and>
   fst (mkTxParams 1000 (algodClient (ex_deployer ex_stale)) ex_flags (Some 0)
          \<lparr>heap = [ex_stale], trace = []\<rparr>) = Inr 0 \<and>
   trace (snd (mkTxParams 1000 (algodClient (ex_deployer ex_stale)) ex_flags (Some 0)
          \<lparr>heap = [ex_stale], trace = []\<rparr>)) = []"
proof -
  have a: "(0::nat) < length (heap \<lparr>heap = [ex_stale], trace = []\<rparr>)"
    by simp
  have b: "firstRound (heap \<lparr>heap = [ex_stale], trace = []\<rparr> ! 0) = 0"
    by (simp add: ex_stale_def)
  from supplied_stale_params_accepted [OF a b, of 1000 "algodClient (ex_deployer ex_stale)" ex_flags]
    a b
  show ?thesis by simp
qed

end
